theory Spec2Isabelle
  imports Main "HOL-Library.Word"
begin

section \<open>Python values used by the ingestion loop\<close>

text \<open>
  \<^verbatim>\<open>sock.recv\<close> returns \<^verbatim>\<open>bytes\<close>; a byte is a \<^typ>\<open>char\<close> (eight bits).
  \<^verbatim>\<open>bytes.decode("utf-8")\<close> returns a \<^verbatim>\<open>str\<close>, a sequence of Unicode code points;
  a code point is a natural number.
\<close>

type_synonym bytes = "char list"
type_synonym pystr = "nat list"

datatype exn =
    OSError
  | TimeoutError
  | ConnectionRefusedError
  | UnicodeDecodeError
  | ValueError
  | OverflowError

datatype 'a result = Raise exn 'a | Next 'a

fun after :: "'a result \<Rightarrow> 'a" where
  "after (Raise e s) = s"
| "after (Next s) = s"

fun raised :: "'a result \<Rightarrow> exn option" where
  "raised (Raise e s) = Some e"
| "raised (Next s) = None"

subsection \<open>\<^verbatim>\<open>bytes.decode("utf-8")\<close>, strict\<close>

definition cont :: "nat \<Rightarrow> bool" where
  "cont b \<longleftrightarrow> 128 \<le> b \<and> b < 192"

fun utf8 :: "nat list \<Rightarrow> pystr option" where
  "utf8 [] = Some []"
| "utf8 (b0 # bs) =
     (if b0 < 128 then map_option ((#) b0) (utf8 bs)
      else if 194 \<le> b0 \<and> b0 < 224 then
        (case bs of
           b1 # r \<Rightarrow>
             if cont b1
             then map_option ((#) ((b0 - 192) * 64 + (b1 - 128))) (utf8 r)
             else None
         | _ \<Rightarrow> None)
      else if 224 \<le> b0 \<and> b0 < 240 then
        (case bs of
           b1 # b2 # r \<Rightarrow>
             if cont b1 \<and> cont b2 \<and> (if b0 = 224 then 160 \<le> b1 else True)
                \<and> (if b0 = 237 then b1 < 160 else True)
             then map_option
                    ((#) ((b0 - 224) * 4096 + (b1 - 128) * 64 + (b2 - 128))) (utf8 r)
             else None
         | _ \<Rightarrow> None)
      else if 240 \<le> b0 \<and> b0 < 245 then
        (case bs of
           b1 # b2 # b3 # r \<Rightarrow>
             if cont b1 \<and> cont b2 \<and> cont b3 \<and> (if b0 = 240 then 144 \<le> b1 else True)
                \<and> (if b0 = 244 then b1 < 144 else True)
             then map_option
                    ((#) ((b0 - 240) * 262144 + (b1 - 128) * 4096 + (b2 - 128) * 64
                          + (b3 - 128))) (utf8 r)
             else None
         | _ \<Rightarrow> None)
      else None)"

definition decode_utf8 :: "bytes \<Rightarrow> pystr option" where
  "decode_utf8 bs = utf8 (map of_char bs)"

subsection \<open>\<^verbatim>\<open>int(s, 16)\<close>\<close>

text \<open>
  The interpreter first maps every non-ASCII white space to a blank and every non-ASCII
  decimal digit to its ASCII digit, cutting the string at the first other non-ASCII
  character, and then parses the ASCII text: blanks, a sign, an optional prefix
  \<^verbatim>\<open>0x\<close>, hexadecimal digits with single underscores between them, blanks.
  Which non-ASCII code points are white space or decimal digits is decided by the Unicode
  tables of the interpreter at hand; they are a parameter.
\<close>

record unicode_db =
  uni_space :: "nat \<Rightarrow> bool"
  uni_decimal :: "nat \<Rightarrow> nat option"

fun transform_decimal_and_space :: "unicode_db \<Rightarrow> pystr \<Rightarrow> pystr" where
  "transform_decimal_and_space db [] = []"
| "transform_decimal_and_space db (c # cs) =
     (if c < 127 then c # transform_decimal_and_space db cs
      else if uni_space db c then 32 # transform_decimal_and_space db cs
      else (case uni_decimal db c of
              None \<Rightarrow> [63]
            | Some d \<Rightarrow> (48 + d) # transform_decimal_and_space db cs))"

definition to_ascii :: "unicode_db \<Rightarrow> pystr \<Rightarrow> pystr" where
  "to_ascii db s = (if list_all (\<lambda>c. c < 128) s then s else transform_decimal_and_space db s)"

definition py_isspace :: "nat \<Rightarrow> bool" where
  "py_isspace c \<longleftrightarrow> c = 32 \<or> (9 \<le> c \<and> c \<le> 13)"

definition digit_value :: "nat \<Rightarrow> nat option" where
  "digit_value c =
     (if 48 \<le> c \<and> c \<le> 57 then Some (c - 48)
      else if 97 \<le> c \<and> c \<le> 122 then Some (c - 87)
      else if 65 \<le> c \<and> c \<le> 90 then Some (c - 55)
      else None)"

definition hex_digit :: "nat \<Rightarrow> nat option" where
  "hex_digit c = (case digit_value c of
                    None \<Rightarrow> None
                  | Some d \<Rightarrow> if d < 16 then Some d else None)"

text \<open>
  The scan over digits and underscores; the flag says that the previous character was an
  underscore. Two underscores in a row and an underscore at the end are errors.
\<close>

fun scan_digits :: "bool \<Rightarrow> nat list \<Rightarrow> pystr \<Rightarrow> (nat list \<times> pystr) option" where
  "scan_digits pu acc [] = (if pu then None else Some (acc, []))"
| "scan_digits pu acc (c # cs) =
     (if c = 95 then (if pu then None else scan_digits True acc cs)
      else (case hex_digit c of
              Some d \<Rightarrow> scan_digits False (acc @ [d]) cs
            | None \<Rightarrow> if pu then None else Some (acc, c # cs)))"

definition long_from_string16 :: "pystr \<Rightarrow> int option" where
  "long_from_string16 buf =
     (let s1 = dropWhile py_isspace buf;
          sgn = (case s1 of [] \<Rightarrow> 1 | c # r \<Rightarrow> if c = 45 then - 1 else (1::int));
          s2 = (case s1 of [] \<Rightarrow> s1 | c # r \<Rightarrow> if c = 43 \<or> c = 45 then r else s1);
          s3 = (case s2 of
                  c0 # c1 # r \<Rightarrow>
                    if c0 = 48 \<and> (c1 = 120 \<or> c1 = 88)
                    then (case r of [] \<Rightarrow> r | u # r' \<Rightarrow> if u = 95 then r' else r)
                    else s2
                | _ \<Rightarrow> s2)
      in case s3 of
           [] \<Rightarrow> None
         | c # _ \<Rightarrow>
             if c = 95 then None
             else (case scan_digits False [] s3 of
                     None \<Rightarrow> None
                   | Some (ds, rest) \<Rightarrow>
                       if ds = [] then None
                       else if dropWhile py_isspace rest \<noteq> [] then None
                       else Some (sgn * int (foldl (\<lambda>a d. 16 * a + d) 0 ds))))"

definition py_int16 :: "unicode_db \<Rightarrow> pystr \<Rightarrow> int option" where
  "py_int16 db s = long_from_string16 (to_ascii db s)"

section \<open>The data of the ingestion pipeline\<close>

text \<open>
  \<^verbatim>\<open>ADSBPacket\<close>, the shared record of the latest decoded aircraft state. The decoded
  values are Python objects whose type the loop never inspects; their type is a parameter.
\<close>

record 'v ADSBPacket =
  message :: pystr
  icao :: 'v
  callsign :: 'v
  altitude :: 'v
  timestamp :: int

text \<open>
  Modelled from the spec: the class \<^verbatim>\<open>ADSBPacket\<close> of \<^verbatim>\<open>model.packet\<close> is not
  among the sources. The record is "created once at process start with all fields
  empty/zero"; \<open>e\<close> is the empty value of the decoded fields.
\<close>

definition ADSBPacket_init :: "'v \<Rightarrow> 'v ADSBPacket" where
  "ADSBPacket_init e =
     \<lparr>message = [], icao = e, callsign = e, altitude = e, timestamp = 0\<rparr>"

text \<open>
  Modelled from the spec: the class \<^verbatim>\<open>ADSBDecoder\<close> of \<^verbatim>\<open>controller.decoder\<close> is not
  among the sources. \<^verbatim>\<open>set_msg(text)\<close> hands the decoder a message and each getter
  returns a pair \<^verbatim>\<open>(value, err)\<close> for the message held, "given a raw message string,
  return a derived field or report decode failure".
\<close>

record ADSBDecoder =
  held :: pystr

definition set_msg :: "pystr \<Rightarrow> ADSBDecoder \<Rightarrow> ADSBDecoder" where
  "set_msg m d = d\<lparr>held := m\<rparr>"

text \<open>
  What the loop calls and does not define: \<^verbatim>\<open>socket_find\<close> and \<^verbatim>\<open>sock.recv\<close> act on
  the outside world \<open>'w\<close> (the connection and the clock) and return it changed;
  \<^verbatim>\<open>msg_crc\<close> returns its error flag; the three getters return value and error flag for
  the message the decoder holds; \<open>now_ms\<close> is
  \<^verbatim>\<open>int(datetime.now().timestamp() * 1000)\<close>, the reading of the wall clock in whole
  milliseconds. \<^verbatim>\<open>recv\<close> either returns bytes or raises. \<open>unicode\<close> holds the
  Unicode tables of the interpreter, read by \<^verbatim>\<open>int\<close>.
\<close>

record ('w, 'v) capabilities =
  socket_find :: "'w \<Rightarrow> bool \<times> 'w"
  recv :: "nat \<Rightarrow> 'w \<Rightarrow> (exn + bytes) \<times> 'w"
  msg_crc :: "pystr \<Rightarrow> bool"
  get_icao :: "pystr \<Rightarrow> 'v \<times> bool"
  get_callsign :: "pystr \<Rightarrow> 'v \<times> bool"
  get_altitude :: "pystr \<Rightarrow> 'v \<times> bool"
  now_ms :: "'w \<Rightarrow> int"
  unicode :: unicode_db

text \<open>The calls made to the outside, in order.\<close>

datatype call =
    Call_socket_find
  | Call_recv nat
  | Call_msg_crc pystr
  | Call_set_msg pystr
  | Call_get_icao
  | Call_get_callsign
  | Call_get_altitude
  | Call_now

record ('w, 'v) daemon =
  world :: 'w
  packet :: "'v ADSBPacket"
  decoder :: ADSBDecoder
  calls :: "call list"

section \<open>\<^verbatim>\<open>decoder_daemon\<close>\<close>

text \<open>\<^verbatim>\<open>int(msg[:2], 16) >> 3\<close>; \<open>None\<close> is the \<^verbatim>\<open>ValueError\<close> of \<^verbatim>\<open>int\<close>.\<close>

definition downlink_format :: "unicode_db \<Rightarrow> pystr \<Rightarrow> int option" where
  "downlink_format db m = map_option (drop_bit 3) (py_int16 db (take 2 m))"

text \<open>Lines 66 to 72: the decoder is given the message and the packet is written.\<close>

definition decode_dispatch ::
  "('w, 'v) capabilities \<Rightarrow> pystr \<Rightarrow> ('w, 'v) daemon \<Rightarrow> ('w, 'v) daemon" where
  "decode_dispatch caps m s =
     (let d = set_msg m (decoder s);
          p1 = (packet s)\<lparr>message := m\<rparr>;
          p2 = p1\<lparr>icao := fst (get_icao caps (held d))\<rparr>;
          p3 = p2\<lparr>callsign := fst (get_callsign caps (held d))\<rparr>;
          p4 = p3\<lparr>altitude := fst (get_altitude caps (held d))\<rparr>;
          p5 = p4\<lparr>timestamp := now_ms caps (world s)\<rparr>
      in s\<lparr>decoder := d, packet := p5,
            calls := calls s @ [Call_set_msg m, Call_get_icao, Call_get_callsign,
                                Call_get_altitude, Call_now]\<rparr>)"

text \<open>Lines 55 to 72: what the loop does with a decoded message.\<close>

definition process_msg ::
  "('w, 'v) capabilities \<Rightarrow> pystr \<Rightarrow> ('w, 'v) daemon \<Rightarrow> ('w, 'v) daemon result" where
  "process_msg caps m s =
     (case downlink_format (unicode caps) m of
        None \<Rightarrow> Raise ValueError s
      | Some df \<Rightarrow>
          let decodable = (df = 17 \<or> df = 20 \<or> df = 21) in
          if \<not> decodable then Next s
          else
            let err = msg_crc caps m;
                s1 = s\<lparr>calls := calls s @ [Call_msg_crc m]\<rparr>
            in if err \<and> df = 17 then Next s1
               else if df \<noteq> 17 then Next s1
               else Next (decode_dispatch caps m s1))"

text \<open>\<^verbatim>\<open>data_recv[-1:]\<close>: the last byte as a byte string, empty for no bytes.\<close>

definition last_slice :: "bytes \<Rightarrow> bytes" where
  "last_slice bs = (if bs = [] then [] else [last bs])"

text \<open>Lines 46 to 72: one pass through the body of \<^verbatim>\<open>while True\<close>.\<close>

definition decoder_daemon_iter ::
  "('w, 'v) capabilities \<Rightarrow> ('w, 'v) daemon \<Rightarrow> ('w, 'v) daemon result" where
  "decoder_daemon_iter caps s =
     (let (err, w1) = socket_find caps (world s);
          s1 = s\<lparr>world := w1, calls := calls s @ [Call_socket_find]\<rparr>
      in if err then Next s1
         else
           let (r, w2) = recv caps 29 w1;
               s2 = s1\<lparr>world := w2, calls := calls s1 @ [Call_recv 29]\<rparr>
           in case r of
                Inl e \<Rightarrow> Raise e s2
              | Inr data_recv \<Rightarrow>
                  if last_slice data_recv \<noteq> '';'' then Next s2
                  else (case decode_utf8 (butlast data_recv) of
                          None \<Rightarrow> Raise UnicodeDecodeError s2
                        | Some m \<Rightarrow> process_msg caps m s2))"

text \<open>
  The loop has no exit of its own: it runs until an exception leaves it. \<open>n\<close> bounds the
  passes looked at; \<open>Next\<close> after \<open>n\<close> passes says the loop is still running.
\<close>

fun decoder_daemon ::
  "nat \<Rightarrow> ('w, 'v) capabilities \<Rightarrow> ('w, 'v) daemon \<Rightarrow> ('w, 'v) daemon result" where
  "decoder_daemon 0 caps s = Next s"
| "decoder_daemon (Suc n) caps s =
     (case decoder_daemon_iter caps s of
        Raise e s' \<Rightarrow> Raise e s'
      | Next s' \<Rightarrow> decoder_daemon n caps s')"

section \<open>\<^verbatim>\<open>connect_tcpserver\<close>\<close>






section \<open>Notions used to state the properties\<close>

text \<open>The four decoded fields of the packet, without the time stamp.\<close>

definition snapshot :: "'v ADSBPacket \<Rightarrow> pystr \<times> 'v \<times> 'v \<times> 'v" where
  "snapshot p = (message p, icao p, callsign p, altitude p)"

text \<open>
  The stored message is the empty string of the start, or a message of downlink format
  17 that the checksum accepts.
\<close>

definition message_ok :: "('w, 'v) capabilities \<Rightarrow> 'v ADSBPacket \<Rightarrow> bool" where
  "message_ok caps p \<longleftrightarrow>
     (if message p = [] then True
      else downlink_format (unicode caps) (message p) = Some 17 \<and> \<not> msg_crc caps (message p))"

text \<open>
  The downlink format in the words of the specification: the first two characters, two
  hexadecimal digits, read as one byte, shifted right by three bits. The digits are
  looked up in a table.
\<close>

definition hex_table :: "(nat \<times> nat) list" where
  "hex_table =
     zip (map of_char ''0123456789abcdef'') [0..<16] @ zip (map of_char ''ABCDEF'') [10..<16]"

definition header_byte :: "nat \<Rightarrow> nat \<Rightarrow> 8 word" where
  "header_byte h l = word_of_nat (16 * h + l)"

definition spec_downlink_format :: "pystr \<Rightarrow> int option" where
  "spec_downlink_format m =
     (case m of
        c1 # c2 # rest \<Rightarrow>
          (case (map_of hex_table c1, map_of hex_table c2) of
             (Some h, Some l) \<Rightarrow> Some (uint (drop_bit 3 (header_byte h l)))
           | _ \<Rightarrow> None)
      | _ \<Rightarrow> None)"


section \<open>A concrete environment for the examples\<close>

text \<open>
  The examples run the loop on a byte stream held in memory, together with the readings
  the wall clock will show at the successive reads. Finding the start sentinel drops the
  bytes up to and including the first \<^verbatim>\<open>*\<close> and reports an error when there is none;
  receiving takes the next bytes of the stream and lets the clock move to its next
  reading. The Unicode tables know no white space or digit beyond ASCII; the examples are
  ASCII texts, for which the tables are not consulted.
\<close>

definition str :: "string \<Rightarrow> pystr" where
  "str cs = map of_char cs"

datatype pyval = PyNone | PyStr pystr | PyInt int

record sim_world =
  stream :: bytes
  now :: int
  later :: "int list"

definition ascii_db :: unicode_db where
  "ascii_db = \<lparr>uni_space = (\<lambda>c. False), uni_decimal = (\<lambda>c. None)\<rparr>"

definition sim_find :: "sim_world \<Rightarrow> bool \<times> sim_world" where
  "sim_find w =
     (case dropWhile (\<lambda>c. c \<noteq> CHR ''*'') (stream w) of
        [] \<Rightarrow> (True, w\<lparr>stream := []\<rparr>)
      | c # r \<Rightarrow> (False, w\<lparr>stream := r\<rparr>))"

definition sim_recv :: "nat \<Rightarrow> sim_world \<Rightarrow> (exn + bytes) \<times> sim_world" where
  "sim_recv n w =
     (Inr (take n (stream w)),
      w\<lparr>stream := drop n (stream w),
        now := (case later w of [] \<Rightarrow> now w | t # ts \<Rightarrow> t),
        later := tl (later w)\<rparr>)"

text \<open>
  Four messages: an identification message and a position message of downlink format 17,
  the position message with its last digit damaged, and a Comm-B reply of downlink
  format 20.
\<close>

definition ident17 :: pystr where
  "ident17 = str ''8D4840D6202CC371C32CE0576098''"

definition msg17 :: pystr where
  "msg17 = str ''8D40621D58C382D690C8AC2863A7''"

definition damaged17 :: pystr where
  "damaged17 = str ''8D40621D58C382D690C8AC2863A8''"

definition msg20 :: pystr where
  "msg20 = str ''A0001838CA380031440000F24177''"

text \<open>
  The stand-in capabilities: the checksum rejects the damaged message; the address is
  characters 2 to 7 of the message; the callsign decodes for the identification message
  and fails for the others; the altitude decodes for the position message and fails for
  the others. A getter that fails returns \<open>PyNone\<close> beside its error flag.
\<close>

definition sim :: "(sim_world, pyval) capabilities" where
  "sim =
     \<lparr>socket_find = sim_find, recv = sim_recv,
      msg_crc = (\<lambda>m. m = damaged17),
      get_icao = (\<lambda>m. (PyStr (take 6 (drop 2 m)), False)),
      get_callsign = (\<lambda>m. if m = ident17 then (PyStr (str ''KLM1023_''), False)
                            else (PyNone, True)),
      get_altitude = (\<lambda>m. if m = msg17 then (PyInt 38000, False) else (PyNone, True)),
      now_ms = now, unicode = ascii_db\<rparr>"

definition start :: "bytes \<Rightarrow> int list \<Rightarrow> (sim_world, pyval) daemon" where
  "start bs ts =
     \<lparr>world = \<lparr>stream = bs, now = 0, later = ts\<rparr>, packet = ADSBPacket_init PyNone,
      decoder = \<lparr>held = []\<rparr>, calls = []\<rparr>"

text \<open>
  The state of the loop after the identification message has arrived and been decoded,
  with the clock readings still to come.
\<close>

definition seen_ident :: "int list \<Rightarrow> (sim_world, pyval) daemon" where
  "seen_ident ts =
     after (decoder_daemon (Suc 0) sim
              (start ''*8D4840D6202CC371C32CE0576098;'' (1700000000500 # ts)))"


section \<open>Facts about the loop body\<close>

lemma process_msg_eq:
  "process_msg caps m s =
     (case downlink_format (unicode caps) m of
        None \<Rightarrow> Raise ValueError s
      | Some df \<Rightarrow>
          if df = 17 then
            (if msg_crc caps m then Next (s\<lparr>calls := calls s @ [Call_msg_crc m]\<rparr>)
             else Next (decode_dispatch caps m (s\<lparr>calls := calls s @ [Call_msg_crc m]\<rparr>)))
          else if df = 20 \<or> df = 21 then Next (s\<lparr>calls := calls s @ [Call_msg_crc m]\<rparr>)
          else Next s)"
  by (simp add: process_msg_def Let_def split: option.splits)

lemma packet_decode_dispatch:
  "packet (decode_dispatch caps m s) =
     \<lparr>message = m, icao = fst (get_icao caps m), callsign = fst (get_callsign caps m),
      altitude = fst (get_altitude caps m), timestamp = now_ms caps (world s)\<rparr>"
  by (simp add: decode_dispatch_def set_msg_def Let_def)

lemma world_after_process: "world (after (process_msg caps m s)) = world s"
  by (simp add: process_msg_eq decode_dispatch_def Let_def split: option.splits)

lemma iter_received:
  assumes "socket_find caps (world s) = (False, w1)"
    and "recv caps 29 w1 = (Inr data_recv, w2)"
  shows "decoder_daemon_iter caps s =
     (if last_slice data_recv \<noteq> '';''
      then Next (s\<lparr>world := w2, calls := calls s @ [Call_socket_find, Call_recv 29]\<rparr>)
      else (case decode_utf8 (butlast data_recv) of
              None \<Rightarrow> Raise UnicodeDecodeError
                        (s\<lparr>world := w2, calls := calls s @ [Call_socket_find, Call_recv 29]\<rparr>)
            | Some m \<Rightarrow> process_msg caps m
                        (s\<lparr>world := w2, calls := calls s @ [Call_socket_find, Call_recv 29]\<rparr>)))"
  using assms by (simp add: decoder_daemon_iter_def Let_def)

lemma iter_calls_prefix:
  "\<exists>r. calls (after (decoder_daemon_iter caps s)) = calls s @ Call_socket_find # r"
  by (auto simp add: decoder_daemon_iter_def Let_def process_msg_eq decode_dispatch_def
           split: prod.splits sum.splits option.splits)

lemma snapshot_process_twice:
  assumes "packet s' = packet (after (process_msg caps m s))"
  shows "snapshot (packet (after (process_msg caps m s')))
           = snapshot (packet (after (process_msg caps m s)))"
  using assms
  by (simp add: process_msg_eq packet_decode_dispatch snapshot_def split: option.splits)

subsection \<open>The examples, evaluated\<close>

lemma df_examples:
  "downlink_format (unicode sim) ident17 = Some 17"
  "downlink_format (unicode sim) msg17 = Some 17"
  "downlink_format (unicode sim) damaged17 = Some 17"
  "downlink_format (unicode sim) msg20 = Some 20"
  by code_simp+

lemma crc_examples:
  "\<not> msg_crc sim ident17" "\<not> msg_crc sim msg17" "msg_crc sim damaged17" "\<not> msg_crc sim msg20"
  by code_simp+

lemma getter_examples:
  "get_icao sim msg17 = (PyStr (str ''40621D''), False)"
  "get_callsign sim msg17 = (PyNone, True)"
  "get_altitude sim msg17 = (PyInt 38000, False)"
  by code_simp+

lemma seen_ident_eq:
  "packet (seen_ident [1700000000900])
     = \<lparr>message = ident17, icao = PyStr (str ''4840D6''), callsign = PyStr (str ''KLM1023_''),
        altitude = PyNone, timestamp = 1700000000500\<rparr>"
  "world (seen_ident [1700000000900]) = \<lparr>stream = [], now = 1700000000500, later = [1700000000900]\<rparr>"
  "calls (seen_ident [1700000000900])
     = [Call_socket_find, Call_recv 29, Call_msg_crc ident17, Call_set_msg ident17,
        Call_get_icao, Call_get_callsign, Call_get_altitude, Call_now]"
  by code_simp+

lemma sim_received:
  "socket_find sim \<lparr>stream = CHR ''*'' # bs, now = t, later = ts\<rparr>
     = (False, \<lparr>stream = bs, now = t, later = ts\<rparr>)"
  "recv sim n \<lparr>stream = bs, now = t, later = t' # ts\<rparr>
     = (Inr (take n bs), \<lparr>stream = drop n bs, now = t', later = ts\<rparr>)"
  "world (start bs ts) = \<lparr>stream = bs, now = 0, later = ts\<rparr>"
  by (simp_all add: sim_def sim_find_def sim_recv_def start_def)

section \<open>What a message does to the packet\<close>

text \<open>
  Claim C1. A message leaves every field of the packet as it was unless its downlink
  format is 17 and the checksum reports no error: messages of any other format, formats
  20 and 21 among them, messages whose header \<^verbatim>\<open>int\<close> rejects, and messages of format
  17 that fail the checksum change nothing.
\<close>

theorem packet_unchanged_unless_df17_crc_ok:
  assumes "\<not> (downlink_format (unicode caps) m = Some 17 \<and> \<not> msg_crc caps m)"
  shows "packet (after (process_msg caps m s)) = packet s"
  using assms by (auto simp add: process_msg_eq split: option.splits)

text \<open>
  Claim C1, at a message of format 17 that the checksum rejects, arriving after the
  identification message has been decoded.
\<close>

theorem packet_unchanged_unless_df17_crc_ok_witness:
  "\<not> (downlink_format (unicode sim) damaged17 = Some 17 \<and> \<not> msg_crc sim damaged17)
   \<and> downlink_format (unicode sim) damaged17 = Some 17
   \<and> msg_crc sim damaged17
   \<and> packet (after (process_msg sim damaged17 (seen_ident [1700000000900])))
       = packet (seen_ident [1700000000900])"
proof -
  have h: "\<not> (downlink_format (unicode sim) damaged17 = Some 17 \<and> \<not> msg_crc sim damaged17)"
    by (simp add: crc_examples)
  show ?thesis
    using h df_examples(3) crc_examples(3) packet_unchanged_unless_df17_crc_ok [OF h]
    by blast
qed

text \<open>
  Claim C2, as stated, fails: "a field whose decode fails keeps the value it had". The
  loop drops the error flag of each getter and stores the value that comes with it. Here
  the identification message arrives, then the position message: after the first pass
  the packet holds the callsign; in the second pass the callsign getter fails and returns
  \<open>PyNone\<close>, and the callsign is overwritten.
\<close>

theorem failed_decode_overwrites_field:
  "callsign (packet (after (decoder_daemon 1 sim
      (start ''*8D4840D6202CC371C32CE0576098;*8D40621D58C382D690C8AC2863A7;''
             [1700000000500, 1700000000900]))))
     = PyStr (str ''KLM1023_'')
   \<and> downlink_format (unicode sim) msg17 = Some 17
   \<and> \<not> msg_crc sim msg17
   \<and> snd (get_callsign sim msg17)
   \<and> message (packet (after (decoder_daemon 2 sim
      (start ''*8D4840D6202CC371C32CE0576098;*8D40621D58C382D690C8AC2863A7;''
             [1700000000500, 1700000000900]))))
     = msg17
   \<and> callsign (packet (after (decoder_daemon 2 sim
      (start ''*8D4840D6202CC371C32CE0576098;*8D40621D58C382D690C8AC2863A7;''
             [1700000000500, 1700000000900]))))
     = PyNone"
  by code_simp

text \<open>
  Claim C2, amended. For a message of format 17 that passes the checksum, each of
  identifier, callsign and altitude is written with the value its getter returns, whether
  the getter reports success or failure: a decoded value on success, the value returned
  beside the error on failure. A field keeps its earlier value exactly when the getter
  returns that value.
\<close>

theorem dispatch_writes_getter_values:
  assumes "downlink_format (unicode caps) m = Some 17" and "\<not> msg_crc caps m"
  shows "icao (packet (after (process_msg caps m s))) = fst (get_icao caps m)
       \<and> callsign (packet (after (process_msg caps m s))) = fst (get_callsign caps m)
       \<and> altitude (packet (after (process_msg caps m s))) = fst (get_altitude caps m)
       \<and> (icao (packet (after (process_msg caps m s))) = icao (packet s)
            \<longleftrightarrow> fst (get_icao caps m) = icao (packet s))
       \<and> (callsign (packet (after (process_msg caps m s))) = callsign (packet s)
            \<longleftrightarrow> fst (get_callsign caps m) = callsign (packet s))
       \<and> (altitude (packet (after (process_msg caps m s))) = altitude (packet s)
            \<longleftrightarrow> fst (get_altitude caps m) = altitude (packet s))"
  using assms by (simp add: process_msg_eq packet_decode_dispatch)

text \<open>
  Claim C2, at the position message arriving after the identification message: the
  address and the altitude decode and are stored, the callsign fails and is replaced.
\<close>

theorem dispatch_writes_getter_values_witness:
  "downlink_format (unicode sim) msg17 = Some 17 \<and> \<not> msg_crc sim msg17
   \<and> icao (packet (after (process_msg sim msg17 (seen_ident [1700000000900]))))
       = PyStr (str ''40621D'')
   \<and> callsign (packet (after (process_msg sim msg17 (seen_ident [1700000000900])))) = PyNone
   \<and> altitude (packet (after (process_msg sim msg17 (seen_ident [1700000000900]))))
       = PyInt 38000"
proof -
  note h1 = df_examples(2) and h2 = crc_examples(2)
  show ?thesis
    using h1 h2 dispatch_writes_getter_values [OF h1 h2, of "seen_ident [1700000000900]"]
    by (simp add: getter_examples)
qed

section \<open>When the checksum is computed\<close>

text \<open>
  Claim C3, as stated, fails: "for a message whose format is not 17 the checksum is never
  invoked". \<^verbatim>\<open>msg_crc\<close> is called on every message of format 17, 20 or 21, before the
  format is compared with 17. Here a frame of format 20 arrives at the start, and after
  the pass the checksum has been called on its message.
\<close>

theorem crc_called_for_df20:
  "downlink_format (unicode sim) msg20 = Some 20
   \<and> calls (start ''*A0001838CA380031440000F24177;'' [1700000000500]) = []
   \<and> calls (after (decoder_daemon 1 sim (start ''*A0001838CA380031440000F24177;'' [1700000000500])))
       = [Call_socket_find, Call_recv 29, Call_msg_crc msg20]"
  by code_simp

text \<open>
  Claim C3, amended. For a message whose format is none of 17, 20 and 21 the checksum is
  not invoked (no call is made at all). For a message of format 20 or 21 the checksum is
  invoked once and its answer is not used: the message is dropped and the packet stays
  as it was.
\<close>

theorem crc_calls_by_format:
  assumes "downlink_format (unicode caps) m = Some df"
  shows "(df \<noteq> 17 \<and> df \<noteq> 20 \<and> df \<noteq> 21 \<longrightarrow>
            calls (after (process_msg caps m s)) = calls s)
       \<and> (df = 20 \<or> df = 21 \<longrightarrow>
            calls (after (process_msg caps m s)) = calls s @ [Call_msg_crc m]
            \<and> packet (after (process_msg caps m s)) = packet s)"
  using assms by (simp add: process_msg_eq)

text \<open>Claim C3, at the message of format 20 arriving after the identification message.\<close>

theorem crc_calls_by_format_witness:
  "downlink_format (unicode sim) msg20 = Some 20
   \<and> calls (after (process_msg sim msg20 (seen_ident [1700000000900])))
       = calls (seen_ident [1700000000900]) @ [Call_msg_crc msg20]
   \<and> packet (after (process_msg sim msg20 (seen_ident [1700000000900])))
       = packet (seen_ident [1700000000900])"
proof -
  note h = df_examples(4)
  show ?thesis
    using h crc_calls_by_format [OF h, of "seen_ident [1700000000900]"] by simp
qed

section \<open>The update made by a validated message\<close>

text \<open>
  Claim C5, as stated, fails: "the time stamp is set to a value greater than or equal to
  the one held before". The stamp is the reading of the wall clock, whatever the packet
  held. Here the identification message is stamped at 1700000000500; the clock is set
  back and reads 1700000000000 when the position message arrives.
\<close>

theorem timestamp_follows_clock_back:
  "timestamp (packet (after (decoder_daemon 1 sim
      (start ''*8D4840D6202CC371C32CE0576098;*8D40621D58C382D690C8AC2863A7;''
             [1700000000500, 1700000000000]))))
     = 1700000000500
   \<and> downlink_format (unicode sim) msg17 = Some 17
   \<and> \<not> msg_crc sim msg17
   \<and> message (packet (after (decoder_daemon 2 sim
      (start ''*8D4840D6202CC371C32CE0576098;*8D40621D58C382D690C8AC2863A7;''
             [1700000000500, 1700000000000]))))
     = msg17
   \<and> timestamp (packet (after (decoder_daemon 2 sim
      (start ''*8D4840D6202CC371C32CE0576098;*8D40621D58C382D690C8AC2863A7;''
             [1700000000500, 1700000000000]))))
     = 1700000000000"
  by code_simp

text \<open>
  Claim C5, amended. For a message of format 17 that passes the checksum, each of
  identifier, callsign and altitude that its getter decodes without error is written into
  the packet, the message itself is stored, and the time stamp is set to the reading of
  the wall clock in milliseconds; the new stamp is at least the old one whenever that
  reading is not earlier than the old stamp.
\<close>

theorem validated_message_updates_packet:
  assumes "downlink_format (unicode caps) m = Some 17" and "\<not> msg_crc caps m"
  shows "(\<not> snd (get_icao caps m) \<longrightarrow>
            icao (packet (after (process_msg caps m s))) = fst (get_icao caps m))
       \<and> (\<not> snd (get_callsign caps m) \<longrightarrow>
            callsign (packet (after (process_msg caps m s))) = fst (get_callsign caps m))
       \<and> (\<not> snd (get_altitude caps m) \<longrightarrow>
            altitude (packet (after (process_msg caps m s))) = fst (get_altitude caps m))
       \<and> message (packet (after (process_msg caps m s))) = m
       \<and> timestamp (packet (after (process_msg caps m s))) = now_ms caps (world s)
       \<and> (timestamp (packet s) \<le> now_ms caps (world s) \<longrightarrow>
            timestamp (packet s) \<le> timestamp (packet (after (process_msg caps m s))))"
  using assms by (simp add: process_msg_eq packet_decode_dispatch)

text \<open>
  Claim C5, at the position message read at 1700000000900 after the identification
  message was stamped at 1700000000500.
\<close>

theorem validated_message_updates_packet_witness:
  "downlink_format (unicode sim) msg17 = Some 17 \<and> \<not> msg_crc sim msg17
   \<and> \<not> snd (get_icao sim msg17) \<and> \<not> snd (get_altitude sim msg17)
   \<and> timestamp (packet (seen_ident [1700000000900])) = 1700000000500
   \<and> icao (packet (after (process_msg sim msg17
        ((seen_ident [1700000000900])\<lparr>world := \<lparr>stream = [], now = 1700000000900, later = []\<rparr>\<rparr>))))
       = PyStr (str ''40621D'')
   \<and> altitude (packet (after (process_msg sim msg17
        ((seen_ident [1700000000900])\<lparr>world := \<lparr>stream = [], now = 1700000000900, later = []\<rparr>\<rparr>))))
       = PyInt 38000
   \<and> message (packet (after (process_msg sim msg17
        ((seen_ident [1700000000900])\<lparr>world := \<lparr>stream = [], now = 1700000000900, later = []\<rparr>\<rparr>))))
       = msg17
   \<and> timestamp (packet (after (process_msg sim msg17
        ((seen_ident [1700000000900])\<lparr>world := \<lparr>stream = [], now = 1700000000900, later = []\<rparr>\<rparr>))))
       = 1700000000900"
proof -
  let ?s = "(seen_ident [1700000000900])\<lparr>world := \<lparr>stream = [], now = 1700000000900, later = []\<rparr>\<rparr>"
  note h1 = df_examples(2) and h2 = crc_examples(2)
  have w: "now_ms sim (world ?s) = 1700000000900"
    by (simp add: sim_def)
  show ?thesis
    using h1 h2 w validated_message_updates_packet [OF h1 h2, of ?s]
    by (simp add: getter_examples seen_ident_eq)
qed

section \<open>Frames the loop receives\<close>

text \<open>
  Claim C6. When the start sentinel has been found and the bytes then received do not
  end in \<^verbatim>\<open>;\<close> (no bytes at all included), the pass yields no message: the packet and
  the decoder are as before, and the only calls made are the scan and the read. The loop
  goes on with its next pass, which starts by scanning for the start sentinel again.
\<close>

theorem bad_terminator_discards_frame:
  assumes "socket_find caps (world s) = (False, w1)"
    and "recv caps 29 w1 = (Inr data_recv, w2)"
    and "last_slice data_recv \<noteq> '';''"
  shows "decoder_daemon_iter caps s
           = Next (s\<lparr>world := w2, calls := calls s @ [Call_socket_find, Call_recv 29]\<rparr>)
       \<and> decoder_daemon (Suc n) caps s
           = decoder_daemon n caps
               (s\<lparr>world := w2, calls := calls s @ [Call_socket_find, Call_recv 29]\<rparr>)
       \<and> (\<exists>r. calls (after (decoder_daemon_iter caps
                  (s\<lparr>world := w2, calls := calls s @ [Call_socket_find, Call_recv 29]\<rparr>)))
              = calls s @ [Call_socket_find, Call_recv 29, Call_socket_find] @ r)"
proof -
  let ?s2 = "s\<lparr>world := w2, calls := calls s @ [Call_socket_find, Call_recv 29]\<rparr>"
  have one: "decoder_daemon_iter caps s = Next ?s2"
    using assms by (simp add: iter_received)
  obtain r where "calls (after (decoder_daemon_iter caps ?s2)) = calls ?s2 @ Call_socket_find # r"
    using iter_calls_prefix by blast
  then have "calls (after (decoder_daemon_iter caps ?s2))
               = calls s @ [Call_socket_find, Call_recv 29, Call_socket_find] @ r"
    by simp
  with one show ?thesis by auto
qed

text \<open>
  Claim C6, at a frame whose terminator is a comma, followed by one that is well formed:
  the first pass changes nothing, the second decodes the second frame.
\<close>

theorem bad_terminator_discards_frame_witness:
  "socket_find sim (world (start ''*8D40621D58C382D690C8AC2863A7,*8D40621D58C382D690C8AC2863A7;'' [1700000000500, 1700000000900]))
     = (False, \<lparr>stream = ''8D40621D58C382D690C8AC2863A7,*8D40621D58C382D690C8AC2863A7;'', now = 0,
        later = [1700000000500, 1700000000900]\<rparr>)
   \<and> recv sim 29 \<lparr>stream = ''8D40621D58C382D690C8AC2863A7,*8D40621D58C382D690C8AC2863A7;'', now = 0,
        later = [1700000000500, 1700000000900]\<rparr>
     = (Inr ''8D40621D58C382D690C8AC2863A7,'', \<lparr>stream = ''*8D40621D58C382D690C8AC2863A7;'', now = 1700000000500,
        later = [1700000000900]\<rparr>)
   \<and> last_slice ''8D40621D58C382D690C8AC2863A7,'' \<noteq> '';''
   \<and> packet (after (decoder_daemon_iter sim
        (start ''*8D40621D58C382D690C8AC2863A7,*8D40621D58C382D690C8AC2863A7;'' [1700000000500, 1700000000900])))
     = ADSBPacket_init PyNone
   \<and> calls (after (decoder_daemon_iter sim
        (start ''*8D40621D58C382D690C8AC2863A7,*8D40621D58C382D690C8AC2863A7;'' [1700000000500, 1700000000900])))
     = [Call_socket_find, Call_recv 29]
   \<and> message (packet (after (decoder_daemon (Suc (Suc 0)) sim
        (start ''*8D40621D58C382D690C8AC2863A7,*8D40621D58C382D690C8AC2863A7;'' [1700000000500, 1700000000900]))))
     = msg17"
proof -
  let ?s = "start ''*8D40621D58C382D690C8AC2863A7,*8D40621D58C382D690C8AC2863A7;'' [1700000000500, 1700000000900]"
  let ?w1 = "\<lparr>stream = ''8D40621D58C382D690C8AC2863A7,*8D40621D58C382D690C8AC2863A7;'', now = 0,
        later = [1700000000500, 1700000000900]\<rparr>"
  let ?w2 = "\<lparr>stream = ''*8D40621D58C382D690C8AC2863A7;'', now = 1700000000500,
        later = [1700000000900]\<rparr>"
  have h1: "socket_find sim (world ?s) = (False, ?w1)"
    by (simp add: sim_received)
  have h2: "recv sim 29 ?w1 = (Inr ''8D40621D58C382D690C8AC2863A7,'', ?w2)"
    by (simp add: sim_received)
  have h3: "last_slice ''8D40621D58C382D690C8AC2863A7,'' \<noteq> '';''"
    by (simp add: last_slice_def)
  have second: "message (packet (after (decoder_daemon (Suc 0) sim
                   (?s\<lparr>world := ?w2, calls := calls ?s @ [Call_socket_find, Call_recv 29]\<rparr>))))
                 = msg17"
    by code_simp
  show ?thesis
    using h1 h2 h3 second bad_terminator_discards_frame [OF h1 h2 h3, of "Suc 0"]
    by (simp add: start_def)
qed

text \<open>
  Claim C4 does not hold of the code. The loop skips a frame with a wrong terminator and
  a failed scan, but a frame that ends in \<^verbatim>\<open>;\<close> is decoded and its first two characters
  are handed to \<^verbatim>\<open>int\<close> with no check: a header that is not hexadecimal, a chunk that
  consists of the terminator alone, and a payload that is not UTF-8 each raise an exception
  that nothing catches. The pass does not complete and the loop is left; the well-formed
  frame that follows in the stream is never read.
\<close>

theorem malformed_frame_ends_loop:
  "raised (decoder_daemon_iter sim (start ''*ZZ40621D58C382D690C8AC2863A7;'' [1700000000500]))
     = Some ValueError
   \<and> raised (decoder_daemon_iter sim (start ''*;'' [1700000000500])) = Some ValueError
   \<and> raised (decoder_daemon_iter sim (start [CHR ''*'', CHR 0xFF, CHR '';''] [1700000000500]))
     = Some UnicodeDecodeError
   \<and> raised (decoder_daemon 3 sim
        (start ''*ZZ40621D58C382D690C8AC2863A7;*8D40621D58C382D690C8AC2863A7;''
               [1700000000500, 1700000000900]))
     = Some ValueError
   \<and> packet (after (decoder_daemon 3 sim
        (start ''*ZZ40621D58C382D690C8AC2863A7;*8D40621D58C382D690C8AC2863A7;''
               [1700000000500, 1700000000900])))
     = ADSBPacket_init PyNone
   \<and> stream (world (after (decoder_daemon 3 sim
        (start ''*ZZ40621D58C382D690C8AC2863A7;*8D40621D58C382D690C8AC2863A7;''
               [1700000000500, 1700000000900]))))
     = ''*8D40621D58C382D690C8AC2863A7;''"
  by code_simp

text \<open>
  Claim C9. When the same bytes are delivered in two passes in a row, the message, the
  identifier, the callsign and the altitude of the packet after the second pass are those
  after the first. The getters are functions of the message, so they are deterministic.
\<close>

theorem redelivery_same_snapshot:
  assumes "socket_find caps (world s) = (False, w1)"
    and "recv caps 29 w1 = (Inr data_recv, w2)"
    and "socket_find caps w2 = (False, w3)"
    and "recv caps 29 w3 = (Inr data_recv, w4)"
  shows "snapshot (packet (after (decoder_daemon (Suc (Suc 0)) caps s)))
           = snapshot (packet (after (decoder_daemon (Suc 0) caps s)))"
proof -
  let ?s2 = "s\<lparr>world := w2, calls := calls s @ [Call_socket_find, Call_recv 29]\<rparr>"
  note first = iter_received [OF assms(1,2)]
  have second: "\<And>t. world t = w2 \<Longrightarrow>
      decoder_daemon_iter caps t =
        (if last_slice data_recv \<noteq> '';''
         then Next (t\<lparr>world := w4, calls := calls t @ [Call_socket_find, Call_recv 29]\<rparr>)
         else (case decode_utf8 (butlast data_recv) of
                 None \<Rightarrow> Raise UnicodeDecodeError
                           (t\<lparr>world := w4, calls := calls t @ [Call_socket_find, Call_recv 29]\<rparr>)
               | Some m \<Rightarrow> process_msg caps m
                           (t\<lparr>world := w4, calls := calls t @ [Call_socket_find, Call_recv 29]\<rparr>)))"
    using assms(3,4) by (simp add: iter_received)
  show ?thesis
  proof (cases "last_slice data_recv \<noteq> '';''")
    case True
    then show ?thesis using first second [of ?s2] by simp
  next
    case terminated: False
    show ?thesis
    proof (cases "decode_utf8 (butlast data_recv)")
      case None
      then show ?thesis using terminated first by simp
    next
      case (Some m)
      have r1: "decoder_daemon_iter caps s = process_msg caps m ?s2"
        using terminated Some first by simp
      show ?thesis
      proof (cases "process_msg caps m ?s2")
        case (Raise e s')
        then show ?thesis using r1 by simp
      next
        case (Next s')
        let ?t = "s'\<lparr>world := w4, calls := calls s' @ [Call_socket_find, Call_recv 29]\<rparr>"
        have "world s' = world ?s2"
          using world_after_process [of caps m ?s2] Next by simp
        then have w: "world s' = w2" by simp
        have r2: "decoder_daemon_iter caps s' = process_msg caps m ?t"
          using second [OF w] terminated Some by simp
        have "packet ?t = packet (after (process_msg caps m ?s2))"
          using Next by simp
        then have "snapshot (packet (after (process_msg caps m ?t)))
                     = snapshot (packet (after (process_msg caps m ?s2)))"
          by (rule snapshot_process_twice)
        moreover have "decoder_daemon (Suc (Suc 0)) caps s = process_msg caps m ?t"
        proof (cases "process_msg caps m ?t")
          case (Raise e u)
          then show ?thesis using r1 r2 Next by simp
        next
          case (Next u)
          then show ?thesis using r1 r2 \<open>process_msg caps m ?s2 = Next s'\<close> by simp
        qed
        moreover have "decoder_daemon (Suc 0) caps s = process_msg caps m ?s2"
          using r1 Next by simp
        ultimately show ?thesis by simp
      qed
    qed
  qed
qed

text \<open>
  Claim C9, at a validated frame delivered twice: after the first pass the packet holds
  the decoded values, and after the second it holds the same.
\<close>

theorem redelivery_same_snapshot_witness:
  "socket_find sim (world (start ''*8D40621D58C382D690C8AC2863A7;*8D40621D58C382D690C8AC2863A7;'' [1700000000500, 1700000000900]))
     = (False, \<lparr>stream = ''8D40621D58C382D690C8AC2863A7;*8D40621D58C382D690C8AC2863A7;'', now = 0,
        later = [1700000000500, 1700000000900]\<rparr>)
   \<and> recv sim 29 \<lparr>stream = ''8D40621D58C382D690C8AC2863A7;*8D40621D58C382D690C8AC2863A7;'', now = 0,
        later = [1700000000500, 1700000000900]\<rparr>
     = (Inr ''8D40621D58C382D690C8AC2863A7;'', \<lparr>stream = ''*8D40621D58C382D690C8AC2863A7;'', now = 1700000000500,
        later = [1700000000900]\<rparr>)
   \<and> socket_find sim \<lparr>stream = ''*8D40621D58C382D690C8AC2863A7;'', now = 1700000000500,
        later = [1700000000900]\<rparr>
     = (False, \<lparr>stream = ''8D40621D58C382D690C8AC2863A7;'', now = 1700000000500,
        later = [1700000000900]\<rparr>)
   \<and> recv sim 29 \<lparr>stream = ''8D40621D58C382D690C8AC2863A7;'', now = 1700000000500,
        later = [1700000000900]\<rparr>
     = (Inr ''8D40621D58C382D690C8AC2863A7;'', \<lparr>stream = [], now = 1700000000900, later = []\<rparr>)
   \<and> snapshot (packet (after (decoder_daemon (Suc 0) sim
        (start ''*8D40621D58C382D690C8AC2863A7;*8D40621D58C382D690C8AC2863A7;'' [1700000000500, 1700000000900]))))
     = (msg17, PyStr (str ''40621D''), PyNone, PyInt 38000)
   \<and> snapshot (packet (after (decoder_daemon (Suc (Suc 0)) sim
        (start ''*8D40621D58C382D690C8AC2863A7;*8D40621D58C382D690C8AC2863A7;'' [1700000000500, 1700000000900]))))
     = (msg17, PyStr (str ''40621D''), PyNone, PyInt 38000)"
proof -
  let ?s = "start ''*8D40621D58C382D690C8AC2863A7;*8D40621D58C382D690C8AC2863A7;'' [1700000000500, 1700000000900]"
  let ?w1 = "\<lparr>stream = ''8D40621D58C382D690C8AC2863A7;*8D40621D58C382D690C8AC2863A7;'', now = 0,
        later = [1700000000500, 1700000000900]\<rparr>"
  let ?w2 = "\<lparr>stream = ''*8D40621D58C382D690C8AC2863A7;'', now = 1700000000500,
        later = [1700000000900]\<rparr>"
  let ?w3 = "\<lparr>stream = ''8D40621D58C382D690C8AC2863A7;'', now = 1700000000500,
        later = [1700000000900]\<rparr>"
  let ?w4 = "\<lparr>stream = [], now = 1700000000900, later = []\<rparr>"
  have h1: "socket_find sim (world ?s) = (False, ?w1)"
    by (simp add: sim_received)
  have h2: "recv sim 29 ?w1 = (Inr ''8D40621D58C382D690C8AC2863A7;'', ?w2)"
    by (simp add: sim_received)
  have h3: "socket_find sim ?w2 = (False, ?w3)"
    by (simp add: sim_received)
  have h4: "recv sim 29 ?w3 = (Inr ''8D40621D58C382D690C8AC2863A7;'', ?w4)"
    by (simp add: sim_received)
  have once: "snapshot (packet (after (decoder_daemon (Suc 0) sim ?s)))
                = (msg17, PyStr (str ''40621D''), PyNone, PyInt 38000)"
    by code_simp
  show ?thesis
    using h1 h2 h3 h4 once redelivery_same_snapshot [OF h1 h2 h3 h4] by simp
qed

section \<open>The downlink format\<close>

lemma hex_table_eq:
  "hex_table = [(48,0),(49,1),(50,2),(51,3),(52,4),(53,5),(54,6),(55,7),(56,8),(57,9),
                (97,10),(98,11),(99,12),(100,13),(101,14),(102,15),
                (65,10),(66,11),(67,12),(68,13),(69,14),(70,15)]"
  by code_simp

lemma hex_table_digit:
  assumes "map_of hex_table c = Some h"
  shows "hex_digit c = Some h" and "h < 16" and "c < 127" and "\<not> py_isspace c"
    and "c \<noteq> 43" and "c \<noteq> 45" and "c \<noteq> 95" and "c \<noteq> 88" and "c \<noteq> 120"
  using assms
  by (auto simp add: hex_table_eq hex_digit_def digit_value_def py_isspace_def split: if_splits)

lemma py_int16_two_digits:
  assumes "map_of hex_table c1 = Some h" and "map_of hex_table c2 = Some l"
  shows "py_int16 db [c1, c2] = Some (int (16 * h + l))"
proof -
  note d1 = hex_table_digit [OF assms(1)] and d2 = hex_table_digit [OF assms(2)]
  have ascii: "to_ascii db [c1, c2] = [c1, c2]"
    using d1(3) d2(3) by (simp add: to_ascii_def)
  have scan: "scan_digits False [] [c1, c2] = Some ([h, l], [])"
    using d1 d2 by simp
  have "long_from_string16 [c1, c2] = Some (int (16 * h + l))"
    using d1 d2 scan by (simp add: long_from_string16_def Let_def)
  with ascii show ?thesis by (simp add: py_int16_def)
qed

lemma header_byte_shift:
  assumes "h < 16" and "l < 16"
  shows "uint (drop_bit 3 (header_byte h l)) = drop_bit 3 (int (16 * h + l))"
proof -
  have small: "16 * h + l < 256" using assms by simp
  have "unat (word_of_nat (16 * h + l) :: 8 word) = (16 * h + l) mod 2 ^ LENGTH(8)"
    by (rule unat_of_nat)
  with small have "unat (header_byte h l) = 16 * h + l"
    by (simp only: header_byte_def) simp
  then have "unat (drop_bit 3 (header_byte h l)) = drop_bit 3 (16 * h + l)"
    by (simp add: unat_drop_bit_eq)
  then have "uint (drop_bit 3 (header_byte h l)) = int (drop_bit 3 (16 * h + l))"
    by (metis uint_nat)
  then show ?thesis by (simp add: drop_bit_eq_div zdiv_int)
qed

text \<open>
  Claim C7, as stated, fails: "for every message the downlink format is the value of the
  first two characters read as one hexadecimal byte, shifted right by three bits". The
  loop hands the first two characters to \<^verbatim>\<open>int\<close> with no check that they are two
  hexadecimal digits, and \<^verbatim>\<open>int\<close> accepts a sign, a blank and a single digit. For the
  header \<^verbatim>\<open>-8\<close> the loop derives the format -1, which no byte gives; for a blank and
  \<^verbatim>\<open>8\<close>, for \<^verbatim>\<open>+F\<close> and for the one-character message \<^verbatim>\<open>8\<close> it derives 1,
  where the first two characters spell no byte.
\<close>

theorem signed_header_gives_negative_format:
  "downlink_format ascii_db (str ''-840621D58C382D690C8AC2863A7'') = Some (- 1)
   \<and> spec_downlink_format (str ''-840621D58C382D690C8AC2863A7'') = None
   \<and> downlink_format ascii_db (str '' 840621D58C382D690C8AC2863A7'') = Some 1
   \<and> spec_downlink_format (str '' 840621D58C382D690C8AC2863A7'') = None
   \<and> downlink_format ascii_db (str ''+F40621D58C382D690C8AC2863A7'') = Some 1
   \<and> spec_downlink_format (str ''+F40621D58C382D690C8AC2863A7'') = None
   \<and> downlink_format ascii_db (str ''8'') = Some 1
   \<and> spec_downlink_format (str ''8'') = None"
  by code_simp

text \<open>
  Claim C7, amended. For every message whose first two characters are hexadecimal
  digits, the downlink format the loop derives is the byte these two digits spell,
  shifted right by three bits: it agrees with the format in the words of the
  specification, it lies between 0 and 31, and it does not depend on the Unicode tables.
  For every message, with no condition on its characters, the outcome of the derivation
  (a format or the \<^verbatim>\<open>ValueError\<close> of \<^verbatim>\<open>int\<close>) is a function of the first two
  characters alone.
\<close>

theorem downlink_format_of_header:
  "downlink_format db m = downlink_format db (take 2 m)
   \<and> (take 2 m = take 2 m' \<longrightarrow> downlink_format db m = downlink_format db m')
   \<and> (map_of hex_table c1 = Some h \<and> map_of hex_table c2 = Some l \<longrightarrow>
        downlink_format db (c1 # c2 # rest) = Some (uint (drop_bit 3 (header_byte h l)))
        \<and> downlink_format db (c1 # c2 # rest) = spec_downlink_format (c1 # c2 # rest)
        \<and> downlink_format db (c1 # c2 # rest) = downlink_format db' (c1 # c2 # rest')
        \<and> (\<exists>df. downlink_format db (c1 # c2 # rest) = Some df \<and> 0 \<le> df \<and> df < 32))"
proof -
  have pure: "downlink_format db m = downlink_format db (take 2 m)"
    by (simp add: downlink_format_def)
  have same: "take 2 m = take 2 m' \<longrightarrow> downlink_format db m = downlink_format db m'"
    by (simp add: downlink_format_def)
  have hex: "downlink_format db (c1 # c2 # rest) = Some (uint (drop_bit 3 (header_byte h l)))
        \<and> downlink_format db (c1 # c2 # rest) = spec_downlink_format (c1 # c2 # rest)
        \<and> downlink_format db (c1 # c2 # rest) = downlink_format db' (c1 # c2 # rest')
        \<and> (\<exists>df. downlink_format db (c1 # c2 # rest) = Some df \<and> 0 \<le> df \<and> df < 32)"
    if digits: "map_of hex_table c1 = Some h" "map_of hex_table c2 = Some l"
  proof -
    note d1 = hex_table_digit [OF digits(1)] and d2 = hex_table_digit [OF digits(2)]
    have df: "\<And>d r. downlink_format d (c1 # c2 # r) = Some (drop_bit 3 (int (16 * h + l)))"
      using py_int16_two_digits [OF digits] by (simp add: downlink_format_def)
    have sh: "uint (drop_bit 3 (header_byte h l)) = drop_bit 3 (int (16 * h + l))"
      using d1(2) d2(2) by (rule header_byte_shift)
    have rng: "0 \<le> drop_bit 3 (int (16 * h + l)) \<and> drop_bit 3 (int (16 * h + l)) < 32"
    proof -
      have "0 \<le> int (16 * h + l) div 8 \<and> int (16 * h + l) div 8 < 32"
        using d1(2) d2(2) by arith
      then show ?thesis by (simp only: drop_bit_eq_div) simp
    qed
    show ?thesis
      using df sh rng digits by (simp add: spec_downlink_format_def)
  qed
  from pure same hex show ?thesis by blast
qed

text \<open>
  Claim C7, at the header \<^verbatim>\<open>8D\<close>: the byte is 141 and the format is 17, for the
  position message and for any other message with this header.
\<close>

theorem downlink_format_of_header_witness:
  "map_of hex_table 56 = Some 8 \<and> map_of hex_table 68 = Some 13
   \<and> msg17 = 56 # 68 # str ''40621D58C382D690C8AC2863A7''
   \<and> take 2 msg17 = take 2 damaged17
   \<and> uint (header_byte 8 13) = 141
   \<and> downlink_format ascii_db (56 # 68 # str ''40621D58C382D690C8AC2863A7'') = Some 17
   \<and> spec_downlink_format (56 # 68 # str ''40621D58C382D690C8AC2863A7'') = Some 17
   \<and> downlink_format ascii_db msg17 = downlink_format ascii_db (take 2 msg17)
   \<and> downlink_format ascii_db msg17 = downlink_format ascii_db damaged17"
proof -
  have h1: "map_of hex_table 56 = Some 8" by (simp add: hex_table_eq)
  have h2: "map_of hex_table 68 = Some 13" by (simp add: hex_table_eq)
  have h3: "take 2 msg17 = take 2 damaged17" by code_simp
  have b: "uint (header_byte 8 13) = 141" by (simp add: header_byte_def)
  have v: "uint (drop_bit 3 (header_byte 8 13)) = 17"
    by (simp add: header_byte_def drop_bit_eq_div)
  have e: "msg17 = 56 # 68 # str ''40621D58C382D690C8AC2863A7''"
    by (simp add: msg17_def str_def)
  note inst = downlink_format_of_header
        [where db = ascii_db and m = msg17 and m' = damaged17 and ?c1.0 = 56 and ?c2.0 = 68
           and h = 8 and l = 13 and rest = "str ''40621D58C382D690C8AC2863A7''"
           and db' = ascii_db and rest' = "str ''40621D58C382D690C8AC2863A7''"]
  have a: "downlink_format ascii_db (56 # 68 # str ''40621D58C382D690C8AC2863A7'') = Some 17"
    using inst h1 h2 v by simp
  have s: "spec_downlink_format (56 # 68 # str ''40621D58C382D690C8AC2863A7'') = Some 17"
    using inst h1 h2 a by simp
  have p: "downlink_format ascii_db msg17 = downlink_format ascii_db (take 2 msg17)"
    using inst by blast
  have q: "downlink_format ascii_db msg17 = downlink_format ascii_db damaged17"
    using inst h3 by blast
  show ?thesis
    using h1 h2 h3 e b a s p q by blast
qed

section \<open>The stored message\<close>

lemma message_ok_process:
  assumes "message_ok caps (packet s)"
  shows "message_ok caps (packet (after (process_msg caps m s)))"
  using assms
  by (auto simp add: process_msg_eq packet_decode_dispatch message_ok_def
           split: option.splits if_splits)

lemma message_ok_iter:
  assumes "message_ok caps (packet s)"
  shows "message_ok caps (packet (after (decoder_daemon_iter caps s)))"
proof -
  have ext: "\<And>w c. message_ok caps (packet (s\<lparr>world := w, calls := c\<rparr>))"
    using assms by (simp add: message_ok_def)
  show ?thesis
    using assms ext
    by (auto simp add: decoder_daemon_iter_def Let_def message_ok_process
             split: prod.splits sum.splits option.splits)
qed

lemma message_ok_loop:
  "message_ok caps (packet s) \<Longrightarrow> message_ok caps (packet (after (decoder_daemon n caps s)))"
proof (induction n arbitrary: s)
  case 0
  then show ?case by simp
next
  case (Suc n)
  have step: "message_ok caps (packet (after (decoder_daemon_iter caps s)))"
    using Suc.prems by (rule message_ok_iter)
  show ?case
  proof (cases "decoder_daemon_iter caps s")
    case (Raise e s')
    with step show ?thesis by simp
  next
    case (Next s')
    with step have "message_ok caps (packet s')" by simp
    then have "message_ok caps (packet (after (decoder_daemon n caps s')))"
      by (rule Suc.IH)
    with Next show ?thesis by simp
  qed
qed

text \<open>
  Claim C10. The message of the packet is the empty string of the start or a string whose
  downlink format is 17 and which the checksum accepts: this holds of the packet at the
  start, every pass of the loop keeps it, whether the pass ends normally or in an
  exception, and so it holds after any number of passes.
\<close>

theorem stored_message_invariant:
  "message_ok caps (ADSBPacket_init e)
   \<and> (message_ok caps (packet s) \<longrightarrow>
        message_ok caps (packet (after (decoder_daemon_iter caps s)))
        \<and> message_ok caps (packet (after (decoder_daemon n caps s))))"
  by (simp add: message_ok_iter message_ok_loop) (simp add: message_ok_def ADSBPacket_init_def)

text \<open>
  Claim C10, on a stream with a frame of format 20, a frame of format 17 and a frame with
  a wrong terminator: after four passes the message stored is the one of format 17.
\<close>

theorem stored_message_invariant_witness:
  "message_ok sim (packet (start
       ''*A0001838CA380031440000F24177;*8D40621D58C382D690C8AC2863A7;*8D4840D6202CC371C32CE0576098,''
       [1700000000500, 1700000000900, 1700000001300]))
   \<and> message (packet (after (decoder_daemon 4 sim (start
       ''*A0001838CA380031440000F24177;*8D40621D58C382D690C8AC2863A7;*8D4840D6202CC371C32CE0576098,''
       [1700000000500, 1700000000900, 1700000001300]))))
     = msg17
   \<and> message_ok sim (packet (after (decoder_daemon 4 sim (start
       ''*A0001838CA380031440000F24177;*8D40621D58C382D690C8AC2863A7;*8D4840D6202CC371C32CE0576098,''
       [1700000000500, 1700000000900, 1700000001300]))))"
proof -
  let ?s = "start
       ''*A0001838CA380031440000F24177;*8D40621D58C382D690C8AC2863A7;*8D4840D6202CC371C32CE0576098,''
       [1700000000500, 1700000000900, 1700000001300]"
  have h: "message_ok sim (packet ?s)"
    by (simp add: message_ok_def start_def ADSBPacket_init_def)
  have m: "message (packet (after (decoder_daemon 4 sim ?s))) = msg17"
    by code_simp
  show ?thesis
    using h m stored_message_invariant [of sim PyNone ?s 4] by blast
qed

section \<open>Connecting\<close>




end
